theory Spec2Isabelle
  imports Main "HOL-Library.Countable"
begin

section \<open>Pointers, adapters and the shared data slot\<close>

text \<open>
  The header \<^verbatim>\<open>delegate.hpp\<close> defines \<^verbatim>\<open>delegate<R(Args...)>\<close>: a pointer to an
  adapter function (the trampoline) and one data slot. In this development
  \<^item> \<open>'a\<close> is the argument tuple \<^verbatim>\<open>Args...\<close>, \<open>'r\<close> the return type \<^verbatim>\<open>R\<close> (\<open>unit\<close> for
    \<^verbatim>\<open>void\<close>) and \<open>'s\<close> the state of the running program (the objects the targets
    read and write);
  \<^item> a \<^verbatim>\<open>void*\<close> is the address it holds, a natural number, \<open>0\<close> being \<^verbatim>\<open>nullptr\<close>;
  \<^item> a \<^verbatim>\<open>TargetFreeCB\<close>, that is \<^verbatim>\<open>R (*)(Args...)\<close>, is the code address it holds,
    \<open>0\<close> being \<^verbatim>\<open>nullptr\<close>;
  \<^item> a class \<^verbatim>\<open>T\<close> and a member function or context function given as a template
    argument are identified by a number.
\<close>

type_synonym void_ptr = nat
type_synonym TargetFreeCB = nat
type_synonym class_id = nat
type_synonym fkn_id = nat

text \<open>
  A value of type \<^verbatim>\<open>Trampoline\<close> points to one of the adapter functions. Every
  instantiation of an adapter template is a function of its own, so a pointer to it is
  identified by the template and its arguments; \<open>==\<close> on two such pointers is equality of
  these identities. \<open>VoidCB n\<close> is a trampoline written by the user and handed to
  \<^verbatim>\<open>makeVoidCB\<close>.
\<close>

datatype Trampoline =
    DoNullFkn
  | DoFreeCB TargetFreeCB
  | DoMemberCB class_id fkn_id
  | DoConstMemberCB class_id fkn_id
  | DoFunctor class_id
  | DoConstFunctor class_id
  | DoRuntimeFkn
  | DofreeFknWithObjectRef class_id fkn_id
  | DofreeFknWithObjectConstRef class_id fkn_id
  | VoidCB nat

text \<open>
  \<^verbatim>\<open>union DataPtr { void* v_ptr = nullptr; TargetFreeCB fkn_ptr; }\<close>: the constructor
  records which member was written last; both members are views of the same storage, so
  each accessor returns the stored address whichever member is active.
\<close>

datatype DataPtr = V_ptr void_ptr | Fkn_ptr TargetFreeCB

fun v_ptr :: "DataPtr \<Rightarrow> void_ptr" where
  "v_ptr (V_ptr p) = p"
| "v_ptr (Fkn_ptr p) = p"

fun fkn_ptr :: "DataPtr \<Rightarrow> TargetFreeCB" where
  "fkn_ptr (V_ptr p) = p"
| "fkn_ptr (Fkn_ptr p) = p"

text \<open>The three constructors of the union: default, from \<^verbatim>\<open>void*\<close>, from \<^verbatim>\<open>TargetFreeCB\<close>.\<close>

definition DataPtr_default :: DataPtr where
  "DataPtr_default = V_ptr 0"

definition DataPtr_void :: "void_ptr \<Rightarrow> DataPtr" where
  "DataPtr_void p = V_ptr p"

definition DataPtr_fkn :: "TargetFreeCB \<Rightarrow> DataPtr" where
  "DataPtr_fkn p = Fkn_ptr p"

text \<open>
  Initialising a \<^verbatim>\<open>DataPtr\<close> from an expression selects a constructor by the type of the
  expression. C++ converts no \<^verbatim>\<open>const void*\<close> to \<^verbatim>\<open>void*\<close> implicitly, and the union has
  no constructor taking a \<^verbatim>\<open>const void*\<close>: such an initialisation is ill-formed and the
  code holding it is rejected when it is instantiated. A rejected build is \<open>None\<close>.
\<close>

datatype initializer =
    Void_ptr void_ptr
  | Const_void_ptr void_ptr
  | Fkn_pointer TargetFreeCB

fun DataPtr_init :: "initializer \<Rightarrow> DataPtr option" where
  "DataPtr_init (Void_ptr p) = Some (DataPtr_void p)"
| "DataPtr_init (Fkn_pointer p) = Some (DataPtr_fkn p)"
| "DataPtr_init (Const_void_ptr p) = None"

section \<open>The program around the delegate\<close>

text \<open>
  The targets a delegate can be bound to belong to the program that uses the header. A
  target takes the arguments and the program state and returns the result and the new
  state. The record also fixes \<open>R_default\<close>, the value of \<^verbatim>\<open>R{}\<close>.
\<close>

type_synonym ('a, 'r, 's) target = "'a \<Rightarrow> 's \<Rightarrow> 'r \<times> 's"

record ('a, 'r, 's) program =
  R_default :: 'r
  free_functions :: "TargetFreeCB \<Rightarrow> ('a, 'r, 's) target option"
  member_functions :: "class_id \<Rightarrow> fkn_id \<Rightarrow> void_ptr \<Rightarrow> ('a, 'r, 's) target"
  const_member_functions :: "class_id \<Rightarrow> fkn_id \<Rightarrow> void_ptr \<Rightarrow> ('a, 'r, 's) target"
  functors :: "class_id \<Rightarrow> void_ptr \<Rightarrow> ('a, 'r, 's) target"
  const_functors :: "class_id \<Rightarrow> void_ptr \<Rightarrow> ('a, 'r, 's) target"
  object_ref_functions :: "class_id \<Rightarrow> fkn_id \<Rightarrow> void_ptr \<Rightarrow> ('a, 'r, 's) target"
  object_const_ref_functions :: "class_id \<Rightarrow> fkn_id \<Rightarrow> void_ptr \<Rightarrow> ('a, 'r, 's) target"
  user_trampolines :: "nat \<Rightarrow> DataPtr \<Rightarrow> ('a, 'r, 's) target"

text \<open>
  Calling through a function pointer: a null pointer, or an address at which the program
  has no function of this signature, is undefined behaviour, made explicit as an error.
\<close>

datatype error = NullFunctionPointerCall | InvalidFunctionPointerCall

definition call_fkn ::
  "('a, 'r, 's) program \<Rightarrow> TargetFreeCB \<Rightarrow> 'a \<Rightarrow> 's \<Rightarrow> error + 'r \<times> 's" where
  "call_fkn P fkn args s =
     (if fkn = 0 then Inl NullFunctionPointerCall
      else case free_functions P fkn of
             None \<Rightarrow> Inl InvalidFunctionPointerCall
           | Some f \<Rightarrow> Inr (f args s))"

section \<open>The adapter functions\<close>

definition nullReturnFunction :: "('a, 'r, 's) program \<Rightarrow> 'r" where
  "nullReturnFunction P = R_default P"

definition nullReturnFunction_void :: unit where
  "nullReturnFunction_void = ()"

definition doNullFkn ::
  "('a, 'r, 's) program \<Rightarrow> DataPtr \<Rightarrow> 'a \<Rightarrow> 's \<Rightarrow> error + 'r \<times> 's" where
  "doNullFkn P v args s = Inr (nullReturnFunction P, s)"

definition doFreeCB ::
  "('a, 'r, 's) program \<Rightarrow> TargetFreeCB \<Rightarrow> DataPtr \<Rightarrow> 'a \<Rightarrow> 's \<Rightarrow> error + 'r \<times> 's" where
  "doFreeCB P freeFkn v args s = call_fkn P freeFkn args s"

definition doMemberCB ::
  "('a, 'r, 's) program \<Rightarrow> class_id \<Rightarrow> fkn_id \<Rightarrow> DataPtr \<Rightarrow> 'a \<Rightarrow> 's \<Rightarrow> error + 'r \<times> 's" where
  "doMemberCB P T memFkn oo args s =
     (let obj = v_ptr oo in Inr (member_functions P T memFkn obj args s))"

definition doConstMemberCB ::
  "('a, 'r, 's) program \<Rightarrow> class_id \<Rightarrow> fkn_id \<Rightarrow> DataPtr \<Rightarrow> 'a \<Rightarrow> 's \<Rightarrow> error + 'r \<times> 's" where
  "doConstMemberCB P T memFkn oo args s =
     (let obj = v_ptr oo in Inr (const_member_functions P T memFkn obj args s))"

definition doFunctor ::
  "('a, 'r, 's) program \<Rightarrow> class_id \<Rightarrow> DataPtr \<Rightarrow> 'a \<Rightarrow> 's \<Rightarrow> error + 'r \<times> 's" where
  "doFunctor P Functor o_arg args s =
     (let obj = v_ptr o_arg in Inr (functors P Functor obj args s))"

definition doConstFunctor ::
  "('a, 'r, 's) program \<Rightarrow> class_id \<Rightarrow> DataPtr \<Rightarrow> 'a \<Rightarrow> 's \<Rightarrow> error + 'r \<times> 's" where
  "doConstFunctor P Functor o_arg args s =
     (let obj = v_ptr o_arg in Inr (const_functors P Functor obj args s))"

definition doRuntimeFkn ::
  "('a, 'r, 's) program \<Rightarrow> DataPtr \<Rightarrow> 'a \<Rightarrow> 's \<Rightarrow> error + 'r \<times> 's" where
  "doRuntimeFkn P o_arg args s =
     (let fkn = fkn_ptr o_arg in call_fkn P fkn args s)"

definition dofreeFknWithObjectRef ::
  "('a, 'r, 's) program \<Rightarrow> class_id \<Rightarrow> fkn_id \<Rightarrow> DataPtr \<Rightarrow> 'a \<Rightarrow> 's \<Rightarrow> error + 'r \<times> 's" where
  "dofreeFknWithObjectRef P T freeFkn oo args s =
     (let obj = v_ptr oo in Inr (object_ref_functions P T freeFkn obj args s))"

definition dofreeFknWithObjectConstRef ::
  "('a, 'r, 's) program \<Rightarrow> class_id \<Rightarrow> fkn_id \<Rightarrow> DataPtr \<Rightarrow> 'a \<Rightarrow> 's \<Rightarrow> error + 'r \<times> 's" where
  "dofreeFknWithObjectConstRef P T freeFkn oo args s =
     (let obj = v_ptr oo in Inr (object_const_ref_functions P T freeFkn obj args s))"

text \<open>The indirect call \<^verbatim>\<open>cb(data, args...)\<close> through a trampoline pointer.\<close>

fun call_trampoline ::
  "('a, 'r, 's) program \<Rightarrow> Trampoline \<Rightarrow> DataPtr \<Rightarrow> 'a \<Rightarrow> 's \<Rightarrow> error + 'r \<times> 's" where
  "call_trampoline P DoNullFkn = doNullFkn P"
| "call_trampoline P (DoFreeCB freeFkn) = doFreeCB P freeFkn"
| "call_trampoline P (DoMemberCB T memFkn) = doMemberCB P T memFkn"
| "call_trampoline P (DoConstMemberCB T memFkn) = doConstMemberCB P T memFkn"
| "call_trampoline P (DoFunctor T) = doFunctor P T"
| "call_trampoline P (DoConstFunctor T) = doConstFunctor P T"
| "call_trampoline P DoRuntimeFkn = doRuntimeFkn P"
| "call_trampoline P (DofreeFknWithObjectRef T freeFkn) = dofreeFknWithObjectRef P T freeFkn"
| "call_trampoline P (DofreeFknWithObjectConstRef T freeFkn) =
     dofreeFknWithObjectConstRef P T freeFkn"
| "call_trampoline P (VoidCB n) = (\<lambda>v args s. Inr (user_trampolines P n v args s))"

section \<open>The class \<^verbatim>\<open>delegate<R(Args...)>\<close>\<close>

record delegate =
  m_cb :: Trampoline
  m_ptr :: DataPtr

text \<open>The public constructor \<^verbatim>\<open>delegate(nullptr)\<close>, also the default constructor.\<close>

definition delegate_nullptr :: delegate where
  "delegate_nullptr = \<lparr>m_cb = DoNullFkn, m_ptr = DataPtr_default\<rparr>"

text \<open>
  The private constructors \<^verbatim>\<open>delegate(Trampoline, void*)\<close>,
  \<^verbatim>\<open>delegate(Trampoline, const void*)\<close> and \<^verbatim>\<open>delegate(Trampoline, TargetFreeCB)\<close>. Each
  initialises \<^verbatim>\<open>m_ptr(ptr)\<close> from its second parameter; the second one does so from a
  \<^verbatim>\<open>const void*\<close>.
\<close>

definition delegate_void :: "Trampoline \<Rightarrow> void_ptr \<Rightarrow> delegate" where
  "delegate_void cb ptr = \<lparr>m_cb = cb, m_ptr = DataPtr_void ptr\<rparr>"

definition delegate_const_void :: "Trampoline \<Rightarrow> void_ptr \<Rightarrow> delegate option" where
  "delegate_const_void cb ptr =
     (case DataPtr_init (Const_void_ptr ptr) of
        None \<Rightarrow> None
      | Some p \<Rightarrow> Some \<lparr>m_cb = cb, m_ptr = p\<rparr>)"

definition delegate_fkn :: "Trampoline \<Rightarrow> TargetFreeCB \<Rightarrow> delegate" where
  "delegate_fkn cb fkn = \<lparr>m_cb = cb, m_ptr = DataPtr_fkn fkn\<rparr>"

text \<open>\<^verbatim>\<open>operator()\<close>: call the trampoline with the stored data and the arguments.\<close>

definition invoke ::
  "('a, 'r, 's) program \<Rightarrow> delegate \<Rightarrow> 'a \<Rightarrow> 's \<Rightarrow> error + 'r \<times> 's" where
  "invoke P d args s = call_trampoline P (m_cb d) (m_ptr d) args s"

definition delegate_null :: "delegate \<Rightarrow> bool" where
  "delegate_null d \<longleftrightarrow> m_cb d = DoNullFkn"

definition delegate_equal :: "delegate \<Rightarrow> delegate \<Rightarrow> bool" where
  "delegate_equal lhs rhs \<longleftrightarrow>
     m_cb lhs = m_cb rhs \<and>
     (if m_cb lhs = DoRuntimeFkn
      then fkn_ptr (m_ptr lhs) = fkn_ptr (m_ptr rhs)
      else v_ptr (m_ptr lhs) = v_ptr (m_ptr rhs))"

text \<open>
  \<^verbatim>\<open>less\<close> compares trampoline pointers with \<open><\<close>, that is by the addresses the linker
  gave the adapter functions. The layout \<open>L\<close> maps every adapter to its address.
\<close>

type_synonym layout = "Trampoline \<Rightarrow> nat"

definition delegate_less :: "layout \<Rightarrow> delegate \<Rightarrow> delegate \<Rightarrow> bool" where
  "delegate_less L lhs rhs \<longleftrightarrow>
     (delegate_null lhs \<and> \<not> delegate_null rhs)
     \<or> L (m_cb lhs) < L (m_cb rhs)
     \<or> (m_cb lhs = m_cb rhs \<and>
        (if m_cb lhs = DoRuntimeFkn
         then fkn_ptr (m_ptr lhs) < fkn_ptr (m_ptr rhs)
         else v_ptr (m_ptr lhs) < v_ptr (m_ptr rhs)))"

text \<open>\<^verbatim>\<open>explicit operator bool\<close>.\<close>

definition delegate_bool :: "delegate \<Rightarrow> bool" where
  "delegate_bool d \<longleftrightarrow> \<not> delegate_null d"

text \<open>The free operators \<^verbatim>\<open>==\<close> and \<^verbatim>\<open>!=\<close>, between delegates and against \<^verbatim>\<open>nullptr\<close>.\<close>

definition op_eq :: "delegate \<Rightarrow> delegate \<Rightarrow> bool" where
  "op_eq lhs rhs \<longleftrightarrow> delegate_equal lhs rhs"

definition op_neq :: "delegate \<Rightarrow> delegate \<Rightarrow> bool" where
  "op_neq lhs rhs \<longleftrightarrow> \<not> op_eq lhs rhs"

definition op_eq_nullptr :: "delegate \<Rightarrow> bool" where
  "op_eq_nullptr d \<longleftrightarrow> delegate_null d"

definition op_neq_nullptr :: "delegate \<Rightarrow> bool" where
  "op_neq_nullptr d \<longleftrightarrow> \<not> op_eq_nullptr d"

section \<open>Rebinding: \<^verbatim>\<open>clear\<close> and the \<^verbatim>\<open>set\<close> overloads\<close>

text \<open>
  An assignment to one member of the union, \<^verbatim>\<open>m_ptr.v_ptr = p\<close> or \<^verbatim>\<open>m_ptr.fkn_ptr = p\<close>,
  overwrites the shared storage and makes that member the active one.
\<close>

definition assign_v_ptr :: "DataPtr \<Rightarrow> void_ptr \<Rightarrow> DataPtr" where
  "assign_v_ptr u p = V_ptr p"

definition assign_fkn_ptr :: "DataPtr \<Rightarrow> TargetFreeCB \<Rightarrow> DataPtr" where
  "assign_fkn_ptr u p = Fkn_ptr p"

definition clear :: "delegate \<Rightarrow> delegate" where
  "clear d = d\<lparr>m_cb := DoNullFkn, m_ptr := assign_v_ptr (m_ptr d) 0\<rparr>"

text \<open>\<^verbatim>\<open>set<fkn>()\<close>: a free function fixed at compile time.\<close>

definition set_freeFkn :: "delegate \<Rightarrow> TargetFreeCB \<Rightarrow> delegate" where
  "set_freeFkn d fkn =
     d\<lparr>m_cb := (if fkn \<noteq> 0 then DoFreeCB fkn else DoNullFkn),
       m_ptr := assign_v_ptr (m_ptr d) 0\<rparr>"

text \<open>\<^verbatim>\<open>set<T, memFkn>(T& tr)\<close> and \<^verbatim>\<open>set<T, memFkn>(T const& tr)\<close>; \<open>tr\<close> is the address of the object.\<close>

definition set_member :: "delegate \<Rightarrow> class_id \<Rightarrow> fkn_id \<Rightarrow> void_ptr \<Rightarrow> delegate" where
  "set_member d T memFkn tr =
     d\<lparr>m_cb := DoMemberCB T memFkn, m_ptr := assign_v_ptr (m_ptr d) tr\<rparr>"

definition set_const_member :: "delegate \<Rightarrow> class_id \<Rightarrow> fkn_id \<Rightarrow> void_ptr \<Rightarrow> delegate" where
  "set_const_member d T memFkn tr =
     d\<lparr>m_cb := DoConstMemberCB T memFkn, m_ptr := assign_v_ptr (m_ptr d) tr\<rparr>"

text \<open>\<^verbatim>\<open>set(T& tr)\<close> and \<^verbatim>\<open>set(T const& tr)\<close> for a functor of class \<open>T\<close>.\<close>

definition set_functor :: "delegate \<Rightarrow> class_id \<Rightarrow> void_ptr \<Rightarrow> delegate" where
  "set_functor d T tr = d\<lparr>m_cb := DoFunctor T, m_ptr := assign_v_ptr (m_ptr d) tr\<rparr>"

definition set_const_functor :: "delegate \<Rightarrow> class_id \<Rightarrow> void_ptr \<Rightarrow> delegate" where
  "set_const_functor d T tr =
     d\<lparr>m_cb := DoConstFunctor T, m_ptr := assign_v_ptr (m_ptr d) tr\<rparr>"

text \<open>\<^verbatim>\<open>set(TargetFreeCB fkn)\<close>, the function pointer given at run time, and \<^verbatim>\<open>set_fkn\<close>.\<close>

definition set_runtime :: "delegate \<Rightarrow> TargetFreeCB \<Rightarrow> delegate" where
  "set_runtime d fkn =
     d\<lparr>m_cb := DoRuntimeFkn, m_ptr := assign_fkn_ptr (m_ptr d) fkn\<rparr>"

definition set_fkn :: "delegate \<Rightarrow> TargetFreeCB \<Rightarrow> delegate" where
  "set_fkn d fkn = set_runtime d fkn"

section \<open>The \<^verbatim>\<open>make\<close> factories\<close>

definition make_freeFkn :: "TargetFreeCB \<Rightarrow> delegate" where
  "make_freeFkn fkn = delegate_void (if fkn \<noteq> 0 then DoFreeCB fkn else DoNullFkn) 0"

definition make_member :: "class_id \<Rightarrow> fkn_id \<Rightarrow> void_ptr \<Rightarrow> delegate" where
  "make_member T memFkn oo = delegate_void (DoMemberCB T memFkn) oo"

definition make_const_member :: "class_id \<Rightarrow> fkn_id \<Rightarrow> void_ptr \<Rightarrow> delegate" where
  "make_const_member T memFkn oo = delegate_void (DoConstMemberCB T memFkn) oo"

definition make_functor :: "class_id \<Rightarrow> void_ptr \<Rightarrow> delegate" where
  "make_functor T oo = delegate_void (DoFunctor T) oo"

definition make_const_functor :: "class_id \<Rightarrow> void_ptr \<Rightarrow> delegate" where
  "make_const_functor T oo = delegate_void (DoConstFunctor T) oo"

definition make_runtime :: "TargetFreeCB \<Rightarrow> delegate" where
  "make_runtime fkn = delegate_fkn DoRuntimeFkn fkn"

definition make_fkn :: "TargetFreeCB \<Rightarrow> delegate" where
  "make_fkn fkn = delegate_fkn DoRuntimeFkn fkn"

text \<open>
  \<^verbatim>\<open>make<T, fkn>(T& o)\<close> for a free function taking the object first. With
  \<^verbatim>\<open>fkn : R (*)(T&, Args...)\<close> the object pointer is passed as \<^verbatim>\<open>void*\<close>; with
  \<^verbatim>\<open>fkn : R (*)(T const&, Args...)\<close> it is passed as \<^verbatim>\<open>void const*\<close>, which selects the
  private constructor taking a \<^verbatim>\<open>const void*\<close>.
\<close>

definition make_freeFknWithObjectRef :: "class_id \<Rightarrow> fkn_id \<Rightarrow> void_ptr \<Rightarrow> delegate" where
  "make_freeFknWithObjectRef T fkn oo = delegate_void (DofreeFknWithObjectRef T fkn) oo"

definition make_freeFknWithObjectConstRef ::
  "class_id \<Rightarrow> fkn_id \<Rightarrow> void_ptr \<Rightarrow> delegate option" where
  "make_freeFknWithObjectConstRef T fkn oo =
     delegate_const_void (DofreeFknWithObjectConstRef T fkn) oo"

text \<open>\<^verbatim>\<open>makeVoidCB\<close>, with the trampoline as template argument or as run-time argument.\<close>

definition makeVoidCB_template :: "Trampoline \<Rightarrow> void_ptr \<Rightarrow> delegate" where
  "makeVoidCB_template fkn ptr = delegate_void fkn ptr"

definition makeVoidCB :: "Trampoline \<Rightarrow> void_ptr \<Rightarrow> delegate" where
  "makeVoidCB fkn ptr = delegate_void fkn ptr"

section \<open>The class \<^verbatim>\<open>MemFkn<Del, cnst>\<close>\<close>

text \<open>
  A \<^verbatim>\<open>MemFkn\<close> stores a trampoline only. Its template parameter \<^verbatim>\<open>cnst\<close> is part of its
  type and selects the overload of \<^verbatim>\<open>set\<close> and \<^verbatim>\<open>make\<close> it is passed to; it has no run-time
  representation.
\<close>

record MemFkn =
  trampoline :: Trampoline

definition MemFkn_default :: MemFkn where
  "MemFkn_default = \<lparr>trampoline = DoNullFkn\<rparr>"

definition MemFkn_of :: "Trampoline \<Rightarrow> MemFkn" where
  "MemFkn_of f = \<lparr>trampoline = f\<rparr>"

definition MemFkn_null :: "MemFkn \<Rightarrow> bool" where
  "MemFkn_null f \<longleftrightarrow> trampoline f = DoNullFkn"

definition MemFkn_equal :: "MemFkn \<Rightarrow> MemFkn \<Rightarrow> bool" where
  "MemFkn_equal lhs rhs \<longleftrightarrow> trampoline lhs = trampoline rhs"

definition MemFkn_less :: "layout \<Rightarrow> MemFkn \<Rightarrow> MemFkn \<Rightarrow> bool" where
  "MemFkn_less L lhs rhs \<longleftrightarrow>
     (MemFkn_null lhs \<and> \<not> MemFkn_null rhs) \<or> L (trampoline lhs) < L (trampoline rhs)"

definition MemFkn_bool :: "MemFkn \<Rightarrow> bool" where
  "MemFkn_bool f \<longleftrightarrow> \<not> MemFkn_null f"

text \<open>The factories \<^verbatim>\<open>memFkn<T, mf>()\<close> for a const and for a non-const member function.\<close>

definition memFkn_const :: "class_id \<Rightarrow> fkn_id \<Rightarrow> MemFkn" where
  "memFkn_const T mf = MemFkn_of (DoConstMemberCB T mf)"

definition memFkn :: "class_id \<Rightarrow> fkn_id \<Rightarrow> MemFkn" where
  "memFkn T mf = MemFkn_of (DoMemberCB T mf)"

text \<open>
  Combining a \<^verbatim>\<open>MemFkn\<close> with an object: \<^verbatim>\<open>set(MemFkn<delegate, false>, T&)\<close>,
  \<^verbatim>\<open>set(MemFkn<delegate, true>, T const&)\<close>, \<^verbatim>\<open>set(MemFkn<delegate, true>, T&)\<close> and the three
  \<^verbatim>\<open>make\<close> overloads of the same shapes. Here the whole union is assigned.
\<close>

definition set_MemFkn :: "delegate \<Rightarrow> MemFkn \<Rightarrow> void_ptr \<Rightarrow> delegate" where
  "set_MemFkn d f oo = d\<lparr>m_cb := trampoline f, m_ptr := DataPtr_void oo\<rparr>"

definition set_MemFkn_const :: "delegate \<Rightarrow> MemFkn \<Rightarrow> void_ptr \<Rightarrow> delegate" where
  "set_MemFkn_const d f oo = d\<lparr>m_cb := trampoline f, m_ptr := DataPtr_void oo\<rparr>"

definition set_MemFkn_const_ref :: "delegate \<Rightarrow> MemFkn \<Rightarrow> void_ptr \<Rightarrow> delegate" where
  "set_MemFkn_const_ref d f oo = set_MemFkn_const d f oo"

definition make_MemFkn :: "MemFkn \<Rightarrow> void_ptr \<Rightarrow> delegate" where
  "make_MemFkn f oo = delegate_void (trampoline f) oo"

definition make_MemFkn_const :: "MemFkn \<Rightarrow> void_ptr \<Rightarrow> delegate" where
  "make_MemFkn_const f oo = delegate_void (trampoline f) oo"

definition make_MemFkn_const_ref :: "MemFkn \<Rightarrow> void_ptr \<Rightarrow> delegate" where
  "make_MemFkn_const_ref f oo = delegate_void (trampoline f) oo"

section \<open>\<^verbatim>\<open>DeduceMemberType\<close> and the C++17 overloads\<close>

text \<open>A pointer to member given as \<^verbatim>\<open>template <auto mFkn>\<close>: its type says whether it is const.\<close>

datatype member_pointer = Member class_id fkn_id | Const_member class_id fkn_id

fun DeduceMemberType_cnst :: "member_pointer \<Rightarrow> bool" where
  "DeduceMemberType_cnst (Member T mf) = False"
| "DeduceMemberType_cnst (Const_member T mf) = True"

fun DeduceMemberType_trampoline :: "member_pointer \<Rightarrow> Trampoline" where
  "DeduceMemberType_trampoline (Member T mf) = DoMemberCB T mf"
| "DeduceMemberType_trampoline (Const_member T mf) = DoConstMemberCB T mf"

definition castPtr :: "member_pointer \<Rightarrow> void_ptr \<Rightarrow> void_ptr" where
  "castPtr mFkn obj = obj"

definition set_auto :: "delegate \<Rightarrow> member_pointer \<Rightarrow> void_ptr \<Rightarrow> delegate" where
  "set_auto d mFkn obj =
     d\<lparr>m_cb := DeduceMemberType_trampoline mFkn, m_ptr := DataPtr_void (castPtr mFkn obj)\<rparr>"

definition make_auto :: "member_pointer \<Rightarrow> void_ptr \<Rightarrow> delegate" where
  "make_auto mFkn obj = delegate_void (DeduceMemberType_trampoline mFkn) (castPtr mFkn obj)"

definition memFkn_auto :: "member_pointer \<Rightarrow> MemFkn" where
  "memFkn_auto mFkn = MemFkn_of (DeduceMemberType_trampoline mFkn)"

section \<open>Delegate objects in memory\<close>

text \<open>
  To speak about copies, delegate objects live in a store indexed by their location.
  Copy construction and copy assignment are the implicit member-wise ones; a mutator
  acts on the object it is called on.
\<close>

type_synonym location = nat
type_synonym delegate_store = "location \<Rightarrow> delegate"

datatype mutator =
    Clear
  | Assign delegate
  | Set_freeFkn TargetFreeCB
  | Set_member class_id fkn_id void_ptr
  | Set_const_member class_id fkn_id void_ptr
  | Set_functor class_id void_ptr
  | Set_const_functor class_id void_ptr
  | Set_runtime TargetFreeCB
  | Set_fkn TargetFreeCB
  | Set_MemFkn MemFkn void_ptr
  | Set_MemFkn_const MemFkn void_ptr
  | Set_MemFkn_const_ref MemFkn void_ptr
  | Set_auto member_pointer void_ptr

fun apply_mutator :: "mutator \<Rightarrow> delegate \<Rightarrow> delegate" where
  "apply_mutator Clear d = clear d"
| "apply_mutator (Assign e) d = e"
| "apply_mutator (Set_freeFkn fkn) d = set_freeFkn d fkn"
| "apply_mutator (Set_member T mf tr) d = set_member d T mf tr"
| "apply_mutator (Set_const_member T mf tr) d = set_const_member d T mf tr"
| "apply_mutator (Set_functor T tr) d = set_functor d T tr"
| "apply_mutator (Set_const_functor T tr) d = set_const_functor d T tr"
| "apply_mutator (Set_runtime fkn) d = set_runtime d fkn"
| "apply_mutator (Set_fkn fkn) d = set_fkn d fkn"
| "apply_mutator (Set_MemFkn f oo) d = set_MemFkn d f oo"
| "apply_mutator (Set_MemFkn_const f oo) d = set_MemFkn_const d f oo"
| "apply_mutator (Set_MemFkn_const_ref f oo) d = set_MemFkn_const_ref d f oo"
| "apply_mutator (Set_auto mFkn obj) d = set_auto d mFkn obj"

definition copy_delegate :: "delegate_store \<Rightarrow> location \<Rightarrow> location \<Rightarrow> delegate_store" where
  "copy_delegate st c d = st(c := st d)"

definition mutate :: "delegate_store \<Rightarrow> location \<Rightarrow> mutator \<Rightarrow> delegate_store" where
  "mutate st d m = st(d := apply_mutator m (st d))"

text \<open>Rebinding the delegate at \<open>d\<close> several times in a row.\<close>

fun rebind :: "delegate_store \<Rightarrow> location \<Rightarrow> mutator list \<Rightarrow> delegate_store" where
  "rebind st d [] = st"
| "rebind st d (m # ms) = rebind (mutate st d m) d ms"

section \<open>The active member of the union\<close>

text \<open>
  \<^verbatim>\<open>equal\<close>, \<^verbatim>\<open>less\<close> and the adapters choose the member of the union to read by the
  trampoline alone. The member they read is the active one when \<^verbatim>\<open>fkn_ptr\<close> is active
  exactly for the trampoline \<^verbatim>\<open>doRuntimeFkn\<close>. The adapters of the class are private, so a
  \<^verbatim>\<open>MemFkn\<close> never holds \<^verbatim>\<open>doRuntimeFkn\<close> and \<^verbatim>\<open>makeVoidCB\<close> receives a trampoline of the
  user's.
\<close>

definition active_member_ok :: "delegate \<Rightarrow> bool" where
  "active_member_ok d =
     (case m_ptr d of
        V_ptr p \<Rightarrow> m_cb d \<noteq> DoRuntimeFkn
      | Fkn_ptr p \<Rightarrow> m_cb d = DoRuntimeFkn)"

fun mutator_ok :: "mutator \<Rightarrow> bool" where
  "mutator_ok (Assign e) = active_member_ok e"
| "mutator_ok (Set_MemFkn f oo) = (trampoline f \<noteq> DoRuntimeFkn)"
| "mutator_ok (Set_MemFkn_const f oo) = (trampoline f \<noteq> DoRuntimeFkn)"
| "mutator_ok (Set_MemFkn_const_ref f oo) = (trampoline f \<noteq> DoRuntimeFkn)"
| "mutator_ok m = True"

section \<open>The sort key of the ordering\<close>

text \<open>The address \<^verbatim>\<open>less\<close> compares once the adapters are the same.\<close>

definition payload :: "delegate \<Rightarrow> nat" where
  "payload d = (if m_cb d = DoRuntimeFkn then fkn_ptr (m_ptr d) else v_ptr (m_ptr d))"

section \<open>A concrete program, layout and store\<close>

text \<open>
  A program over \<^verbatim>\<open>delegate<int(int)>\<close> with an integer as its state, used to run the
  definitions: one free function lives at code address \<open>4\<close>.
\<close>

definition example_program :: "(int, int, int) program" where
  "example_program =
     \<lparr>R_default = 0,
      free_functions = (\<lambda>p. if p = 4 then Some (\<lambda>a s. (a + 1, s + a)) else None),
      member_functions = (\<lambda>T mf obj a s. (a + int obj, s + 1)),
      const_member_functions = (\<lambda>T mf obj a s. (a - int obj, s)),
      functors = (\<lambda>T obj a s. (a, s + int obj)),
      const_functors = (\<lambda>T obj a s. (s, s)),
      object_ref_functions = (\<lambda>T g obj a s. (2 * a + int obj, s + 2)),
      object_const_ref_functions = (\<lambda>T g obj a s. (3 * a + int obj, s)),
      user_trampolines = (\<lambda>n v a s. (a + int n, s))\<rparr>"

text \<open>
  A layout that gives every adapter an address of its own and places \<^verbatim>\<open>doRuntimeFkn\<close> at
  address \<open>0\<close>, below \<^verbatim>\<open>doNullFkn\<close> at address \<open>1\<close>.
\<close>

fun adapter_tag :: "Trampoline \<Rightarrow> nat" where
  "adapter_tag DoRuntimeFkn = 0"
| "adapter_tag DoNullFkn = 1"
| "adapter_tag (DoFreeCB f) = 2"
| "adapter_tag (DoMemberCB T mf) = 3"
| "adapter_tag (DoConstMemberCB T mf) = 4"
| "adapter_tag (DoFunctor T) = 5"
| "adapter_tag (DoConstFunctor T) = 6"
| "adapter_tag (DofreeFknWithObjectRef T g) = 7"
| "adapter_tag (DofreeFknWithObjectConstRef T g) = 8"
| "adapter_tag (VoidCB n) = 9"

fun adapter_index :: "Trampoline \<Rightarrow> nat" where
  "adapter_index DoRuntimeFkn = 0"
| "adapter_index DoNullFkn = 0"
| "adapter_index (DoFreeCB f) = f"
| "adapter_index (DoMemberCB T mf) = prod_encode (T, mf)"
| "adapter_index (DoConstMemberCB T mf) = prod_encode (T, mf)"
| "adapter_index (DoFunctor T) = T"
| "adapter_index (DoConstFunctor T) = T"
| "adapter_index (DofreeFknWithObjectRef T g) = prod_encode (T, g)"
| "adapter_index (DofreeFknWithObjectConstRef T g) = prod_encode (T, g)"
| "adapter_index (VoidCB n) = n"

definition example_layout :: layout where
  "example_layout t = 10 * adapter_index t + adapter_tag t"

text \<open>A store with a bound delegate at location \<open>0\<close> and null delegates elsewhere.\<close>

definition example_store :: delegate_store where
  "example_store = (\<lambda>l. delegate_nullptr)(0 := make_member 1 2 16)"

section \<open>Unfolding the embedding\<close>

lemmas DataPtr_defs =
  DataPtr_default_def DataPtr_void_def DataPtr_fkn_def assign_v_ptr_def assign_fkn_ptr_def

lemmas ctor_defs = delegate_nullptr_def delegate_void_def delegate_fkn_def

lemmas make_defs =
  make_freeFkn_def make_member_def make_const_member_def make_functor_def
  make_const_functor_def make_runtime_def make_fkn_def make_freeFknWithObjectRef_def
  makeVoidCB_template_def makeVoidCB_def make_MemFkn_def make_MemFkn_const_def
  make_MemFkn_const_ref_def make_auto_def

lemmas set_defs =
  clear_def set_freeFkn_def set_member_def set_const_member_def set_functor_def
  set_const_functor_def set_runtime_def set_fkn_def set_MemFkn_def set_MemFkn_const_def
  set_MemFkn_const_ref_def set_auto_def

lemmas adapter_defs =
  doNullFkn_def doFreeCB_def doMemberCB_def doConstMemberCB_def doFunctor_def
  doConstFunctor_def doRuntimeFkn_def dofreeFknWithObjectRef_def
  dofreeFknWithObjectConstRef_def

lemmas MemFkn_defs =
  MemFkn_default_def MemFkn_of_def memFkn_def memFkn_const_def memFkn_auto_def

section \<open>The example layout gives every adapter its own address\<close>

lemma adapter_tag_less: "adapter_tag t < 10"
  by (cases t) simp_all

lemma example_layout_tag: "example_layout t mod 10 = adapter_tag t"
  using adapter_tag_less [of t] by (simp add: example_layout_def)

lemma example_layout_index: "example_layout t div 10 = adapter_index t"
  using adapter_tag_less [of t] by (simp add: example_layout_def)

lemma tag_index_inj:
  "adapter_tag x = adapter_tag y \<Longrightarrow> adapter_index x = adapter_index y \<Longrightarrow> x = y"
  by (cases x; cases y; simp)

lemma example_layout_inj: "inj example_layout"
proof (rule injI)
  fix x y assume "example_layout x = example_layout y"
  then have "adapter_tag x = adapter_tag y" "adapter_index x = adapter_index y"
    by (metis example_layout_tag, metis example_layout_index)
  then show "x = y" by (rule tag_index_inj)
qed

section \<open>Every binding keeps the active member in step with the trampoline\<close>

lemma active_member_ok_make:
  "active_member_ok delegate_nullptr"
  "active_member_ok (make_freeFkn fkn)"
  "active_member_ok (make_member T mf oo)"
  "active_member_ok (make_const_member T mf oo)"
  "active_member_ok (make_functor T oo)"
  "active_member_ok (make_const_functor T oo)"
  "active_member_ok (make_runtime fkn)"
  "active_member_ok (make_fkn fkn)"
  "active_member_ok (make_freeFknWithObjectRef T g oo)"
  "active_member_ok (makeVoidCB (VoidCB n) oo)"
  "active_member_ok (makeVoidCB_template (VoidCB n) oo)"
  "active_member_ok (make_MemFkn (memFkn T mf) oo)"
  "active_member_ok (make_MemFkn_const (memFkn_const T mf) oo)"
  "active_member_ok (make_MemFkn_const_ref (memFkn_const T mf) oo)"
  "active_member_ok (make_MemFkn MemFkn_default oo)"
  "active_member_ok (make_auto mp oo)"
  by (cases mp; simp add: active_member_ok_def make_defs ctor_defs DataPtr_defs MemFkn_defs)+

lemma active_member_ok_mutator:
  assumes "mutator_ok m"
  shows "active_member_ok (apply_mutator m d)"
proof (cases m)
  case (Set_auto mp obj)
  then show ?thesis
    by (cases mp) (simp_all add: active_member_ok_def set_defs DataPtr_defs)
next
  case (Assign e)
  with assms show ?thesis by simp
qed (use assms in \<open>simp_all add: active_member_ok_def set_defs DataPtr_defs\<close>)

lemma active_member_ok_payload:
  assumes "active_member_ok d"
  shows "payload d = (case m_ptr d of V_ptr p \<Rightarrow> p | Fkn_ptr p \<Rightarrow> p)"
  using assms by (cases "m_ptr d") (simp_all add: payload_def active_member_ok_def)

section \<open>The C++17 overloads agree with the C++11 ones\<close>

lemma auto_binding_agrees:
  "make_auto (Member T mf) x = make_member T mf x"
  "make_auto (Const_member T mf) x = make_const_member T mf x"
  "memFkn_auto (Member T mf) = memFkn T mf"
  "memFkn_auto (Const_member T mf) = memFkn_const T mf"
  "set_auto d (Member T mf) x = set_member d T mf x"
  "set_auto d (Const_member T mf) x = set_const_member d T mf x"
  by (simp_all add: make_defs set_defs MemFkn_defs castPtr_def DataPtr_defs)

section \<open>Rebinding one delegate leaves the others alone\<close>

lemma mutate_other: "c \<noteq> d \<Longrightarrow> mutate st d m c = st c"
  by (simp add: mutate_def)

lemma rebind_other: "c \<noteq> d \<Longrightarrow> rebind st d ms c = st c"
proof (induction ms arbitrary: st)
  case Nil
  show ?case by simp
next
  case (Cons m ms)
  from Cons.prems have "rebind (mutate st d m) d ms c = mutate st d m c"
    by (rule Cons.IH)
  with Cons.prems show ?case
    by (simp add: mutate_other)
qed

lemma delegate_equal_refl: "delegate_equal d d"
  by (simp add: delegate_equal_def)

section \<open>Ordering\<close>

text \<open>
  Two parts of the ordering hold for every layout: no delegate is less than itself, and
  a null delegate is less than every delegate that is not null.
\<close>

lemma delegate_less_irrefl: "\<not> delegate_less L r r"
  by (simp add: delegate_less_def)

lemma delegate_less_null_first:
  "delegate_null n \<Longrightarrow> \<not> delegate_null d \<Longrightarrow> delegate_less L n d"
  by (simp add: delegate_less_def)

text \<open>
  When the linker gives every adapter an address of its own and \<^verbatim>\<open>doNullFkn\<close> the lowest
  one, \<^verbatim>\<open>less\<close> is the lexicographic order on the adapter address and the payload, hence
  transitive, asymmetric and total up to \<^verbatim>\<open>equal\<close>.
\<close>

lemma delegate_less_lex:
  assumes "inj L" "\<And>t. L DoNullFkn \<le> L t"
  shows "delegate_less L a b \<longleftrightarrow>
     L (m_cb a) < L (m_cb b) \<or> (L (m_cb a) = L (m_cb b) \<and> payload a < payload b)"
proof -
  have eq: "L (m_cb a) = L (m_cb b) \<longleftrightarrow> m_cb a = m_cb b"
    using assms(1) by (auto dest: injD)
  have "L DoNullFkn < L (m_cb b)" if "m_cb b \<noteq> DoNullFkn"
    using assms(2) [of "m_cb b"] that assms(1) by (metis injD le_neq_implies_less)
  then show ?thesis
    unfolding eq by (auto simp: delegate_less_def delegate_null_def payload_def)
qed

lemma delegate_less_trans:
  assumes "inj L" "\<And>t. L DoNullFkn \<le> L t" "delegate_less L a b" "delegate_less L b c"
  shows "delegate_less L a c"
  using assms(3,4) unfolding delegate_less_lex [OF assms(1,2)] by auto

lemma delegate_less_asym:
  assumes "inj L" "\<And>t. L DoNullFkn \<le> L t" "delegate_less L a b"
  shows "\<not> delegate_less L b a"
  using assms(3) unfolding delegate_less_lex [OF assms(1,2)] by auto

lemma delegate_less_total:
  assumes "inj L" "\<not> delegate_equal a b"
  shows "delegate_less L a b \<or> delegate_less L b a"
proof (cases "m_cb a = m_cb b")
  case True
  then show ?thesis
    using assms(2) by (auto simp: delegate_less_def delegate_equal_def split: if_splits)
next
  case False
  then have "L (m_cb a) \<noteq> L (m_cb b)"
    using assms(1) by (auto dest: injD)
  then show ?thesis
    by (auto simp: delegate_less_def)
qed

text \<open>
  Claim C1 (\<^verbatim>\<open>less\<close> is a strict total order; a null delegate is less than a non-null
  one and never the other way round). The second disjunct of \<^verbatim>\<open>less\<close>,
  \<^verbatim>\<open>lhs.m_cb < rhs.m_cb\<close>, is not restricted to the case where the first one does not
  decide. Under a layout that places \<^verbatim>\<open>doRuntimeFkn\<close> below \<^verbatim>\<open>doNullFkn\<close>, the null delegate
  \<open>n\<close> and the delegate \<open>d\<close> bound to the run-time function pointer \<open>5\<close> satisfy both
  \<open>less(n, d)\<close> and \<open>less(d, n)\<close>, while \<open>less(d, d)\<close> is false: for these two delegates
  \<^verbatim>\<open>less\<close> is neither asymmetric nor transitive.
\<close>

theorem less_null_delegate_both_ways:
  "delegate_null delegate_nullptr \<and> \<not> delegate_null (make_runtime 5)
   \<and> delegate_less example_layout delegate_nullptr (make_runtime 5)
   \<and> delegate_less example_layout (make_runtime 5) delegate_nullptr
   \<and> \<not> delegate_less example_layout (make_runtime 5) (make_runtime 5)"
  by (simp add: delegate_less_def delegate_null_def make_defs ctor_defs DataPtr_defs
      example_layout_def)

section \<open>Equality\<close>

text \<open>
  Claim C2: \<^verbatim>\<open>equal(lhs, rhs)\<close> holds exactly when both store the same trampoline and,
  for the trampoline \<^verbatim>\<open>doRuntimeFkn\<close>, the same function pointer, otherwise the same object
  pointer. Two delegates bound to the same member function of two distinct objects \<open>x\<close>
  and \<open>y\<close> store the same trampoline and are not equal.
\<close>

theorem equal_characterisation:
  "(delegate_equal lhs rhs \<longleftrightarrow>
      m_cb lhs = m_cb rhs
      \<and> (m_cb lhs = DoRuntimeFkn \<longrightarrow> fkn_ptr (m_ptr lhs) = fkn_ptr (m_ptr rhs))
      \<and> (m_cb lhs \<noteq> DoRuntimeFkn \<longrightarrow> v_ptr (m_ptr lhs) = v_ptr (m_ptr rhs)))
   \<and> (x \<noteq> y \<longrightarrow>
        m_cb (make_member T mf x) = m_cb (make_member T mf y)
        \<and> \<not> delegate_equal (make_member T mf x) (make_member T mf y)
        \<and> \<not> delegate_equal (make_const_member T mf x) (make_const_member T mf y)
        \<and> \<not> delegate_equal (set_member d T mf x) (set_member e T mf y)
        \<and> \<not> delegate_equal (set_const_member d T mf x) (set_const_member e T mf y))"
  by (simp add: delegate_equal_def make_defs set_defs ctor_defs DataPtr_defs)

theorem equal_characterisation_witness:
  "(16::nat) \<noteq> 24
   \<and> \<not> delegate_equal (make_member 1 2 16) (make_member 1 2 24)
   \<and> \<not> delegate_equal (set_member delegate_nullptr 1 2 16) (set_member (make_runtime 4) 1 2 24)
   \<and> (delegate_equal (make_runtime 4) (make_fkn 4) \<longleftrightarrow>
        m_cb (make_runtime 4) = m_cb (make_fkn 4)
        \<and> (m_cb (make_runtime 4) = DoRuntimeFkn \<longrightarrow>
             fkn_ptr (m_ptr (make_runtime 4)) = fkn_ptr (m_ptr (make_fkn 4)))
        \<and> (m_cb (make_runtime 4) \<noteq> DoRuntimeFkn \<longrightarrow>
             v_ptr (m_ptr (make_runtime 4)) = v_ptr (m_ptr (make_fkn 4))))"
  using equal_characterisation [of "make_runtime 4" "make_fkn 4" 16 24 1 2
      delegate_nullptr "make_runtime 4"]
  by simp

section \<open>Invoking a null delegate\<close>

lemma nullReturnFunction_void_eq:
  "nullReturnFunction (Q :: ('a, unit, 's) program) = nullReturnFunction_void"
  by simp

text \<open>
  Claim C3: invoking a delegate whose trampoline is the null adapter returns the value
  \<^verbatim>\<open>R{}\<close> and leaves the program state as it was, for every argument; it returns normally.
  With \<^verbatim>\<open>R = void\<close> (the program \<open>Q\<close>) nothing but the unchanged state is returned. The
  default-constructed delegate is null, equal to \<^verbatim>\<open>nullptr\<close>, converts to \<open>false\<close>, and
  invoking it returns \<^verbatim>\<open>R{}\<close>.
\<close>

theorem null_adapter_invoke:
  "(delegate_null d \<longrightarrow> invoke P d args s = Inr (nullReturnFunction P, s))
   \<and> nullReturnFunction P = R_default P
   \<and> delegate_null delegate_nullptr
   \<and> op_eq_nullptr delegate_nullptr
   \<and> \<not> delegate_bool delegate_nullptr
   \<and> invoke P delegate_nullptr args s = Inr (R_default P, s)
   \<and> invoke Q delegate_nullptr args s = Inr (nullReturnFunction_void, s)"
  by (simp add: delegate_null_def invoke_def doNullFkn_def nullReturnFunction_def
      op_eq_nullptr_def delegate_bool_def delegate_nullptr_def)

theorem null_adapter_invoke_witness:
  "delegate_null (clear (make_runtime 4))
   \<and> invoke example_program (clear (make_runtime 4)) 7 3 = Inr (R_default example_program, 3)"
  using null_adapter_invoke [of "clear (make_runtime 4)" example_program 7 3]
  by (simp add: delegate_null_def clear_def)

section \<open>Member functions bound through a \<^verbatim>\<open>MemFkn\<close>\<close>

text \<open>
  Claim C4: a \<^verbatim>\<open>MemFkn\<close> made by the \<^verbatim>\<open>memFkn\<close> factory for the member function \<open>mf\<close> of
  class \<open>T\<close> and then combined with the object \<open>x\<close> by \<^verbatim>\<open>make\<close> or \<^verbatim>\<open>set\<close> gives the same
  delegate as binding \<open>mf\<close> and \<open>x\<close> directly: the same adapter and the same data pointer,
  hence the same result and state on every invocation, namely those of the member
  function called on \<open>x\<close>. This holds for const and non-const member functions.
\<close>

theorem memFkn_binding_equivalent:
  "make_MemFkn (memFkn T mf) x = make_member T mf x
   \<and> set_MemFkn d (memFkn T mf) x = set_member d T mf x
   \<and> make_MemFkn_const (memFkn_const T mf) x = make_const_member T mf x
   \<and> make_MemFkn_const_ref (memFkn_const T mf) x = make_const_member T mf x
   \<and> set_MemFkn_const d (memFkn_const T mf) x = set_const_member d T mf x
   \<and> set_MemFkn_const_ref d (memFkn_const T mf) x = set_const_member d T mf x
   \<and> m_cb (make_MemFkn (memFkn T mf) x) = DoMemberCB T mf
   \<and> v_ptr (m_ptr (make_MemFkn (memFkn T mf) x)) = x
   \<and> invoke P (make_MemFkn (memFkn T mf) x) args s = invoke P (make_member T mf x) args s
   \<and> invoke P (set_MemFkn d (memFkn T mf) x) args s = invoke P (set_member d T mf x) args s
   \<and> invoke P (make_member T mf x) args s = Inr (member_functions P T mf x args s)
   \<and> invoke P (make_MemFkn_const (memFkn_const T mf) x) args s =
       invoke P (make_const_member T mf x) args s
   \<and> invoke P (make_const_member T mf x) args s = Inr (const_member_functions P T mf x args s)"
  by (simp add: make_defs set_defs MemFkn_defs ctor_defs DataPtr_defs invoke_def adapter_defs)

section \<open>Free functions fixed at compile time\<close>

text \<open>
  Claim C5: for a non-null free function \<open>f\<close> living at the code address \<open>fkn\<close>, the
  delegate bound to it through the compile-time path (\<^verbatim>\<open>make<fkn>()\<close> or \<^verbatim>\<open>set<fkn>()\<close>)
  returns, when invoked with \<open>args\<close>, exactly what \<open>f\<close> returns on \<open>args\<close>.
\<close>

theorem freeFkn_invoke:
  "fkn \<noteq> 0 \<Longrightarrow> free_functions P fkn = Some f \<Longrightarrow>
     invoke P (make_freeFkn fkn) args s = Inr (f args s)
     \<and> invoke P (set_freeFkn d fkn) args s = Inr (f args s)"
  by (simp add: make_defs set_defs ctor_defs invoke_def adapter_defs call_fkn_def)

theorem freeFkn_invoke_witness:
  "(4::nat) \<noteq> 0
   \<and> free_functions example_program 4 = Some (\<lambda>a s. (a + 1, s + a))
   \<and> invoke example_program (make_freeFkn 4) 7 3 = Inr (8, 10)
   \<and> invoke example_program (set_freeFkn (make_runtime 0) 4) 7 3 = Inr (8, 10)"
  using freeFkn_invoke [of 4 example_program "\<lambda>a s. (a + 1, s + a)" 7 3 "make_runtime 0"]
  by (simp add: example_program_def)

section \<open>Free functions taking the object first\<close>

text \<open>
  The adapter for the const-reference variant dispatches to its function with the object
  the data pointer names, once a delegate holds it.
\<close>

lemma dofreeFknWithObjectConstRef_dispatch:
  "invoke P (delegate_void (DofreeFknWithObjectConstRef T g) oo) args s =
     Inr (object_const_ref_functions P T g oo args s)"
  by (simp add: invoke_def adapter_defs ctor_defs DataPtr_defs)

text \<open>
  Claim C6 (binding a free function \<open>g\<close> with the object \<open>oo\<close> as context and invoking
  with \<open>args\<close> returns \<open>g(oo, args)\<close>, for the reference and the const-reference variant).
  The reference variant does so. The const-reference variant of \<^verbatim>\<open>make\<close> passes the object
  as \<^verbatim>\<open>void const*\<close> to the private constructor \<^verbatim>\<open>delegate(Trampoline, const void*)\<close>, whose
  initialiser \<^verbatim>\<open>m_ptr(ptr)\<close> finds no constructor of \<^verbatim>\<open>DataPtr\<close>: the binding does not build
  and yields no delegate.
\<close>

theorem freeFknWithObject_binding:
  "invoke P (make_freeFknWithObjectRef T g oo) args s = Inr (object_ref_functions P T g oo args s)
   \<and> make_freeFknWithObjectConstRef T g oo = None"
  by (simp add: make_defs make_freeFknWithObjectConstRef_def delegate_const_void_def
      invoke_def adapter_defs ctor_defs DataPtr_defs)

section \<open>Function pointers given at run time\<close>

text \<open>
  Claim C7: two delegates bound through the run-time path to the same function pointer
  \<open>p\<close> are equal, and a delegate bound to \<open>f\<close> through the run-time path is never equal
  to one bound to \<open>f\<close> through the compile-time path, in either argument order, since
  the two store different trampolines.
\<close>

theorem runtime_fkn_equality:
  "delegate_equal (make_runtime p) (make_runtime p)
   \<and> delegate_equal (make_fkn p) (make_runtime p)
   \<and> delegate_equal (set_runtime d p) (set_runtime e p)
   \<and> delegate_equal (set_fkn d p) (make_fkn p)
   \<and> \<not> delegate_equal (make_runtime f) (make_freeFkn f)
   \<and> \<not> delegate_equal (make_freeFkn f) (make_runtime f)
   \<and> \<not> delegate_equal (set_runtime d f) (set_freeFkn e f)
   \<and> \<not> delegate_equal (set_freeFkn d f) (set_runtime e f)
   \<and> m_cb (make_runtime f) \<noteq> m_cb (make_freeFkn f)"
  by (simp add: delegate_equal_def make_defs set_defs ctor_defs DataPtr_defs)

text \<open>
  Claim C8: binding the null function pointer through the compile-time path selects the
  null adapter. Both \<^verbatim>\<open>set<nullptr>()\<close>, on any delegate \<open>d\<close>, and \<^verbatim>\<open>make<nullptr>()\<close> give
  the default-constructed delegate itself, which is null and is invoked like it.
\<close>

theorem null_freeFkn_selects_null_adapter:
  "set_freeFkn d 0 = delegate_nullptr
   \<and> make_freeFkn 0 = delegate_nullptr
   \<and> m_cb (set_freeFkn d 0) = DoNullFkn
   \<and> m_cb (make_freeFkn 0) = DoNullFkn
   \<and> delegate_null (set_freeFkn d 0)
   \<and> delegate_null (make_freeFkn 0)
   \<and> invoke P (set_freeFkn d 0) args s = invoke P delegate_nullptr args s
   \<and> invoke P (make_freeFkn 0) args s = invoke P delegate_nullptr args s"
  by (simp add: delegate_null_def make_defs set_defs ctor_defs DataPtr_defs invoke_def)

text \<open>
  Claim C10: a delegate bound through the run-time path to the null function pointer is
  not null and converts to \<open>true\<close>; invoking it calls through the stored null pointer,
  which is undefined behaviour. The compile-time path maps the null function pointer to
  the null adapter.
\<close>

theorem runtime_null_pointer_unguarded:
  "\<not> delegate_null (make_runtime 0) \<and> delegate_bool (make_runtime 0)
   \<and> \<not> delegate_null (make_fkn 0) \<and> delegate_bool (make_fkn 0)
   \<and> \<not> delegate_null (set_runtime d 0) \<and> delegate_bool (set_runtime d 0)
   \<and> \<not> delegate_null (set_fkn d 0) \<and> delegate_bool (set_fkn d 0)
   \<and> invoke P (make_runtime 0) args s = Inl NullFunctionPointerCall
   \<and> invoke P (make_fkn 0) args s = Inl NullFunctionPointerCall
   \<and> invoke P (set_runtime d 0) args s = Inl NullFunctionPointerCall
   \<and> invoke P (set_fkn d 0) args s = Inl NullFunctionPointerCall
   \<and> delegate_null (make_freeFkn 0) \<and> delegate_null (set_freeFkn d 0)"
  by (simp add: delegate_null_def delegate_bool_def make_defs set_defs ctor_defs DataPtr_defs
      invoke_def adapter_defs call_fkn_def)

section \<open>Copies are independent\<close>

text \<open>
  Claim C9: after the delegate at \<open>d\<close> is copied to another location \<open>c\<close>, rebinding
  \<open>d\<close> through any mutators \<open>ms\<close> one after the other (\<^verbatim>\<open>clear\<close>, any \<^verbatim>\<open>set\<close>,
  assignment) leaves the copy as it was: it holds the original trampoline and data,
  compares equal to the original binding and is invoked like it. The delegate at \<open>d\<close> is
  the one a mutator changes.
\<close>

theorem copy_unaffected_by_rebinding:
  assumes "c \<noteq> d"
  shows "rebind (copy_delegate st c d) d ms c = st d
    \<and> m_cb (rebind (copy_delegate st c d) d ms c) = m_cb (st d)
    \<and> m_ptr (rebind (copy_delegate st c d) d ms c) = m_ptr (st d)
    \<and> delegate_equal (rebind (copy_delegate st c d) d ms c) (st d)
    \<and> invoke P (rebind (copy_delegate st c d) d ms c) args s = invoke P (st d) args s
    \<and> mutate (copy_delegate st c d) d m c = st d
    \<and> mutate (copy_delegate st c d) d m d = apply_mutator m (st d)"
proof -
  have copied: "copy_delegate st c d c = st d" "copy_delegate st c d d = st d"
    by (simp_all add: copy_delegate_def)
  from assms have "rebind (copy_delegate st c d) d ms c = copy_delegate st c d c"
    by (rule rebind_other)
  with copied have kept: "rebind (copy_delegate st c d) d ms c = st d"
    by simp
  from assms have "mutate (copy_delegate st c d) d m c = copy_delegate st c d c"
    by (rule mutate_other)
  with copied have kept1: "mutate (copy_delegate st c d) d m c = st d"
    by simp
  have changed: "mutate (copy_delegate st c d) d m d = apply_mutator m (st d)"
    using copied by (simp add: mutate_def)
  from kept kept1 changed show ?thesis
    by (simp add: delegate_equal_refl)
qed

theorem copy_unaffected_by_rebinding_witness:
  "(1::nat) \<noteq> 0
   \<and> rebind (copy_delegate example_store 1 0) 0 [Set_runtime 4, Clear] 1 = make_member 1 2 16
   \<and> rebind (copy_delegate example_store 1 0) 0 [Set_runtime 4, Clear] 0 = delegate_nullptr
   \<and> mutate (copy_delegate example_store 1 0) 0 (Set_runtime 4) 0 = make_runtime 4
   \<and> invoke example_program (rebind (copy_delegate example_store 1 0) 0 [Set_runtime 4, Clear] 1)
        7 3 = Inr (23, 4)"
  using copy_unaffected_by_rebinding
    [of 1 0 example_store "[Set_runtime 4, Clear]" example_program 7 3 "Set_runtime 4"]
  by (simp add: example_store_def example_program_def invoke_def make_defs set_defs ctor_defs
      DataPtr_defs adapter_defs mutate_def copy_delegate_def)

end
